theory Spec2Isabelle
  imports Complex_Main "HOL-Library.Word"
begin

section \<open>pysnap: the Snapchat client of \<^verbatim>\<open>pysnap/__init__.py\<close>\<close>

text \<open>
  The module is embedded function by function. Bytes are 8-bit words, byte strings are
  lists of them, Python integers are \<open>int\<close>, the float returned by the clock is a
  \<open>real\<close>. Every method of the class \<^verbatim>\<open>Snapchat\<close> takes the object and the list
  of HTTP requests issued so far, and returns its result (an exception is \<open>Inl\<close>)
  together with both, updated.
\<close>

subsection \<open>Values\<close>

type_synonym byte = "8 word"
type_synonym bytes = "byte list"

text \<open>
  The interpreter. The module's results depend on it in three places: the comparison
  of a byte slice with a literal written without the \<^verbatim>\<open>b\<close> prefix, the method
  \<^verbatim>\<open>.decode('base64')\<close>, and the rounding of halves by \<^verbatim>\<open>round\<close>.
\<close>

datatype python = Python2 | Python3

datatype pyval =
    PNone
  | PBool bool
  | PInt int
  | PFloat real
  | PStr string
  | PBytes bytes
  | PList "pyval list"
  | PDict "(string \<times> pyval) list"

datatype error =
    ValueError string
  | TypeError
  | AttributeError
  | LookupError
  | Raised string

definition MEDIA_IMAGE :: int where "MEDIA_IMAGE = 0"
definition MEDIA_VIDEO :: int where "MEDIA_VIDEO = 1"
definition MEDIA_VIDEO_NOAUDIO :: int where "MEDIA_VIDEO_NOAUDIO = 2"

subsection \<open>Content type detection\<close>

text \<open>
  \<^verbatim>\<open>data[0:2] == 'PK'\<close>: a slice of a byte buffer against a literal of type
  \<^verbatim>\<open>str\<close>. In Python 2 \<^verbatim>\<open>str\<close> is the byte string type and the contents are
  compared; in Python 3 a \<^verbatim>\<open>bytes\<close> object is never equal to a \<^verbatim>\<open>str\<close>.
\<close>

fun bytes_eq_str :: "python \<Rightarrow> bytes \<Rightarrow> string \<Rightarrow> bool" where
  "bytes_eq_str Python2 b s = (b = map of_char s)"
| "bytes_eq_str Python3 b s = False"

definition is_video :: "bytes \<Rightarrow> bool" where
  "is_video data = (length data > 1 \<and> take 2 data = [0x00, 0x00])"

definition is_image :: "bytes \<Rightarrow> bool" where
  "is_image data = (length data > 1 \<and> take 2 data = [0xFF, 0xD8])"

definition is_zip :: "python \<Rightarrow> bytes \<Rightarrow> bool" where
  "is_zip py data = (length data > 1 \<and> bytes_eq_str py (take 2 data) ''PK'')"

definition get_file_extension :: "int option \<Rightarrow> string" where
  "get_file_extension media_type =
     (if media_type = Some MEDIA_VIDEO \<or> media_type = Some MEDIA_VIDEO_NOAUDIO then ''mp4''
      else if media_type = Some MEDIA_IMAGE then ''jpg''
      else '''')"

definition get_media_type :: "bytes \<Rightarrow> int option" where
  "get_media_type data =
     (if is_video data then Some MEDIA_VIDEO
      else if is_image data then Some MEDIA_IMAGE
      else None)"

text \<open>The test \<^verbatim>\<open>any((is_image(data), is_video(data), is_zip(data)))\<close> of the downloads.\<close>

definition any_signature :: "python \<Rightarrow> bytes \<Rightarrow> bool" where
  "any_signature py data = (is_image data \<or> is_video data \<or> is_zip py data)"

subsection \<open>The object, the transport and the collaborators\<close>

record snapchat =
  username :: pyval
  auth_token :: pyval
  qr_path :: pyval

definition init :: snapchat where
  "init = \<lparr>username = PNone, auth_token = PNone, qr_path = PNone\<rparr>"

record http_request =
  endpoint :: string
  token :: pyval
  data :: "(string \<times> pyval) list option"
  files :: "(string \<times> pyval) list option"
  raise_for_status :: bool
  req_type :: string

record response =
  content :: bytes

text \<open>
  What the module imports and does not define: \<^verbatim>\<open>request\<close>, \<^verbatim>\<open>encrypt\<close>,
  \<^verbatim>\<open>decrypt\<close>, \<^verbatim>\<open>decrypt_story\<close> and \<^verbatim>\<open>make_media_id\<close> of
  \<^verbatim>\<open>pysnap.utils\<close>, \<^verbatim>\<open>json.dumps\<close>, the base64 codec, \<^verbatim>\<open>os.path.exists\<close>,
  reading a file, and the clock \<^verbatim>\<open>time.time\<close>. They are parameters; each call that
  may raise returns a sum.
\<close>

record env =
  request :: "http_request \<Rightarrow> error + response"
  encrypt :: "bytes \<Rightarrow> error + bytes"
  decrypt :: "bytes \<Rightarrow> error + bytes"
  decrypt_story :: "bytes \<Rightarrow> bytes \<Rightarrow> bytes \<Rightarrow> error + bytes"
  make_media_id :: "pyval \<Rightarrow> error + string"
  json_dumps :: "pyval \<Rightarrow> string"
  base64_codec :: "pyval \<Rightarrow> error + bytes"
  path_exists :: "string \<Rightarrow> bool"
  read_file :: "string \<Rightarrow> error + bytes"
  time :: real

record world =
  self :: snapchat
  wire :: "http_request list"

type_synonym 'a outcome = "(error + 'a) \<times> world"

text \<open>
  \<^verbatim>\<open>x.decode('base64')\<close>. Python 3 has no such method on \<^verbatim>\<open>str\<close> and refuses
  the codec on \<^verbatim>\<open>bytes\<close>; in Python 2 the codec runs on a string.
\<close>

fun decode_base64 :: "python \<Rightarrow> env \<Rightarrow> pyval \<Rightarrow> error + bytes" where
  "decode_base64 Python2 e (PStr s) = base64_codec e (PStr s)"
| "decode_base64 Python2 e (PBytes b) = base64_codec e (PBytes b)"
| "decode_base64 Python3 e (PBytes b) = Inl LookupError"
| "decode_base64 py e v = Inl AttributeError"

text \<open>
  \<^verbatim>\<open>int(round(x))\<close>: Python 2 rounds a half away from zero, Python 3 to the even
  neighbour.
\<close>

fun int_round :: "python \<Rightarrow> real \<Rightarrow> int" where
  "int_round Python2 x = (if 0 \<le> x then \<lfloor>x + 1 / 2\<rfloor> else \<lceil>x - 1 / 2\<rceil>)"
| "int_round Python3 x =
     (let f = \<lfloor>x\<rfloor>; r = x - of_int f in
      if r < 1 / 2 then f
      else if 1 / 2 < r then f + 1
      else if even f then f else f + 1)"

text \<open>
  Calling a name. Where a method has no parameter called \<^verbatim>\<open>time\<close> the name is the
  imported clock; in \<^verbatim>\<open>send_to_story\<close> and \<^verbatim>\<open>retry_post_story\<close> it is the
  parameter, an integer, and calling an integer raises \<^verbatim>\<open>TypeError\<close>.
\<close>

datatype callee = Clock | IntObject int

fun call :: "env \<Rightarrow> callee \<Rightarrow> error + real" where
  "call e Clock = Inr (time e)"
| "call e (IntObject n) = Inl TypeError"

subsection \<open>The methods\<close>

definition self_request ::
  "env \<Rightarrow> world \<Rightarrow> string \<Rightarrow> (string \<times> pyval) list option \<Rightarrow> (string \<times> pyval) list option
     \<Rightarrow> bool \<Rightarrow> string \<Rightarrow> response outcome" where
  "self_request e w ep d f rfs rt =
     (let rq = \<lparr>endpoint = ep, token = auth_token (self w), data = d, files = f,
                raise_for_status = rfs, req_type = rt\<rparr>
      in (request e rq, w\<lparr>wire := wire w @ [rq]\<rparr>))"

definition unset_auth :: "world \<Rightarrow> unit outcome" where
  "unset_auth w = (Inr (), w\<lparr>self := (self w)\<lparr>username := PNone, auth_token := PNone\<rparr>\<rparr>)"

definition logout :: "env \<Rightarrow> world \<Rightarrow> bool outcome" where
  "logout e w =
     (case self_request e w ''ph/logout'' (Some [(''username'', username (self w))]) None
             True ''post'' of
        (Inl x, w') \<Rightarrow> (Inl x, w')
      | (Inr r, w') \<Rightarrow> (Inr (length (content r) = 0), w'))"

text \<open>The shared tail of the downloads: \<^verbatim>\<open>return data\<close> if a signature matches.\<close>

definition get_story_blob ::
  "python \<Rightarrow> env \<Rightarrow> world \<Rightarrow> pyval \<Rightarrow> pyval \<Rightarrow> pyval \<Rightarrow> bytes option outcome" where
  "get_story_blob py e w story_id story_key story_iv =
     (case self_request e w ''bq/story_blob'' (Some [(''story_id'', story_id)]) None
             False ''get'' of
        (Inl x, w') \<Rightarrow> (Inl x, w')
      | (Inr r, w') \<Rightarrow>
          (case decode_base64 py e story_key of
             Inl x \<Rightarrow> (Inl x, w')
           | Inr k \<Rightarrow>
               (case decode_base64 py e story_iv of
                  Inl x \<Rightarrow> (Inl x, w')
                | Inr iv \<Rightarrow>
                    (case decrypt_story e (content r) k iv of
                       Inl x \<Rightarrow> (Inl x, w')
                     | Inr d \<Rightarrow>
                         if any_signature py d then (Inr (Some d), w')
                         else (Inr None, w')))))"

definition get_chat_media ::
  "python \<Rightarrow> env \<Rightarrow> world \<Rightarrow> pyval \<Rightarrow> pyval \<Rightarrow> pyval \<Rightarrow> pyval \<Rightarrow> bytes option outcome" where
  "get_chat_media py e w ident chatid key iv =
     (case self_request e w ''bq/chat_media''
             (Some [(''id'', ident), (''username'', username (self w)),
                    (''timestamp'', PFloat (time e * 1000)), (''conversation_id'', chatid)])
             None True ''post'' of
        (Inl x, w') \<Rightarrow> (Inl x, w')
      | (Inr r, w') \<Rightarrow>
          (case decode_base64 py e key of
             Inl x \<Rightarrow> (Inl x, w')
           | Inr k \<Rightarrow>
               (case decode_base64 py e iv of
                  Inl x \<Rightarrow> (Inl x, w')
                | Inr i \<Rightarrow>
                    (case decrypt_story e (content r) k i of
                       Inl x \<Rightarrow> (Inl x, w')
                     | Inr d \<Rightarrow>
                         if any_signature py d then (Inr (Some d), w')
                         else (Inr None, w')))))"

definition get_blob :: "python \<Rightarrow> env \<Rightarrow> world \<Rightarrow> pyval \<Rightarrow> bytes option outcome" where
  "get_blob py e w snap_id =
     (case self_request e w ''ph/blob''
             (Some [(''username'', username (self w)), (''id'', snap_id)]) None
             False ''post'' of
        (Inl x, w') \<Rightarrow> (Inl x, w')
      | (Inr r, w') \<Rightarrow>
          (case decrypt e (content r) of
             Inl x \<Rightarrow> (Inl x, w')
           | Inr d \<Rightarrow>
               if any_signature py d then (Inr (Some d), w')
               else (Inr None, w')))"


definition send_events :: "env \<Rightarrow> world \<Rightarrow> pyval \<Rightarrow> pyval option \<Rightarrow> bool outcome" where
  "send_events e w events dat =
     (let d = (case dat of None \<Rightarrow> PDict [] | Some x \<Rightarrow> x) in
      case self_request e w ''bq/update_snaps''
             (Some [(''username'', username (self w)),
                    (''events'', PStr (json_dumps e events)),
                    (''json'', PStr (json_dumps e d))]) None True ''post'' of
        (Inl x, w') \<Rightarrow> (Inl x, w')
      | (Inr r, w') \<Rightarrow> (Inr (length (content r) = 0), w'))"

text \<open>The two values \<^verbatim>\<open>mark_viewed\<close> builds before it calls \<^verbatim>\<open>send_events\<close>.\<close>

definition mark_viewed_data :: "env \<Rightarrow> string \<Rightarrow> int \<Rightarrow> pyval" where
  "mark_viewed_data e snap_id view_duration =
     PDict [(snap_id, PDict [(''t'', PFloat (time e)), (''sv'', PInt view_duration)])]"

definition mark_viewed_events :: "python \<Rightarrow> env \<Rightarrow> string \<Rightarrow> int \<Rightarrow> pyval list" where
  "mark_viewed_events py e snap_id view_duration =
     [PDict [(''eventName'', PStr ''SNAP_VIEW''),
             (''params'', PDict [(''id'', PStr snap_id)]),
             (''ts'', PInt (int_round py (time e) - view_duration))],
      PDict [(''eventName'', PStr ''SNAP_EXPIRED''),
             (''params'', PDict [(''id'', PStr snap_id)]),
             (''ts'', PInt (int_round py (time e)))]]"

definition mark_viewed :: "python \<Rightarrow> env \<Rightarrow> world \<Rightarrow> string \<Rightarrow> int \<Rightarrow> bool outcome" where
  "mark_viewed py e w snap_id view_duration =
     send_events e w (PList (mark_viewed_events py e snap_id view_duration))
       (Some (mark_viewed_data e snap_id view_duration))"

definition mark_screenshot_data :: "env \<Rightarrow> string \<Rightarrow> int \<Rightarrow> pyval" where
  "mark_screenshot_data e snap_id view_duration =
     PDict [(snap_id, PDict [(''t'', PFloat (time e)), (''sv'', PInt view_duration),
                             (''c'', PInt 3)])]"

definition mark_screenshot_events :: "python \<Rightarrow> env \<Rightarrow> string \<Rightarrow> int \<Rightarrow> pyval list" where
  "mark_screenshot_events py e snap_id view_duration =
     [PDict [(''eventName'', PStr ''SNAP_SCREENSHOT''),
             (''params'', PDict [(''id'', PStr snap_id)]),
             (''ts'', PInt (int_round py (time e) - view_duration))]]"

definition mark_screenshot :: "python \<Rightarrow> env \<Rightarrow> world \<Rightarrow> string \<Rightarrow> int \<Rightarrow> bool outcome" where
  "mark_screenshot py e w snap_id view_duration =
     send_events e w (PList (mark_screenshot_events py e snap_id view_duration))
       (Some (mark_screenshot_data e snap_id view_duration))"


definition send :: "env \<Rightarrow> world \<Rightarrow> pyval \<Rightarrow> pyval \<Rightarrow> int \<Rightarrow> bool outcome" where
  "send e w media_id recipients time_arg =
     (case self_request e w ''loq/send''
             (Some [(''username'', username (self w)), (''media_id'', media_id),
                    (''recipient'', recipients), (''time'', PInt time_arg),
                    (''zipped'', PStr ''0'')]) None True ''post'' of
        (Inl x, w') \<Rightarrow> (Inl x, w')
      | (Inr r, w') \<Rightarrow> (Inr (length (content r) = 0), w'))"

text \<open>
  In the next two methods the argument list of the request is evaluated left to right:
  \<^verbatim>\<open>self.username\<close>, then \<^verbatim>\<open>time() * 1000\<close> with \<^verbatim>\<open>time\<close> the parameter.
\<close>

definition send_to_story :: "env \<Rightarrow> world \<Rightarrow> pyval \<Rightarrow> int \<Rightarrow> bytes outcome" where
  "send_to_story e w media_id time_arg =
     (case call e (IntObject time_arg) of
        Inl x \<Rightarrow> (Inl x, w)
      | Inr t \<Rightarrow>
          (case self_request e w ''bq/post_story''
                  (Some [(''username'', username (self w)),
                         (''timestamp'', PFloat (t * 1000)),
                         (''media_id'', media_id), (''client_id'', media_id),
                         (''caption_text_display'', PStr ''''), (''zipped'', PStr ''0''),
                         (''type'', PInt 0), (''time'', PInt time_arg)]) None True ''post'' of
             (Inl x, w') \<Rightarrow> (Inl x, w')
           | (Inr r, w') \<Rightarrow> (Inr (content r), w')))"

definition retry_post_story ::
  "python \<Rightarrow> env \<Rightarrow> world \<Rightarrow> bytes \<Rightarrow> string \<Rightarrow> int \<Rightarrow> bytes outcome" where
  "retry_post_story py e w dat caption time_arg =
     (case make_media_id e (username (self w)) of
        Inl x \<Rightarrow> (Inl x, w)
      | Inr media_id \<Rightarrow>
          (case call e (IntObject time_arg) of
             Inl x \<Rightarrow> (Inl x, w)
           | Inr t \<Rightarrow>
               (case encrypt e dat of
                  Inl x \<Rightarrow> (Inl x, w)
                | Inr c \<Rightarrow>
                    (case self_request e w ''bq/retry_post_story''
                            (Some [(''username'', username (self w)),
                                   (''timestamp'', PFloat (t * 1000)),
                                   (''media_id'', PStr media_id),
                                   (''client_id'', PStr media_id),
                                   (''caption_text_display'', PStr caption),
                                   (''zipped'', PInt (if is_zip py dat then 1 else 0)),
                                   (''type'', (case get_media_type dat of
                                                 None \<Rightarrow> PNone | Some m \<Rightarrow> PInt m)),
                                   (''time'', PInt (time_arg * 1000))])
                            (Some [(''data'', PBytes c)]) True ''post'' of
                       (Inl x, w') \<Rightarrow> (Inl x, w')
                     | (Inr r, w') \<Rightarrow> (Inr (content r), w')))))"

text \<open>A transport and collaborators to run the methods on: every request is answered
  with the same body, the codecs are the identity.\<close>

definition echo_env :: "bytes \<Rightarrow> real \<Rightarrow> env" where
  "echo_env body t =
     \<lparr>request = (\<lambda>rq. Inr \<lparr>content = body\<rparr>),
      encrypt = Inr, decrypt = Inr, decrypt_story = (\<lambda>c k i. Inr c),
      make_media_id = (\<lambda>u. Inr ''MEDIA~1''),
      json_dumps = (\<lambda>v. ''''),
      base64_codec = (\<lambda>v. Inr []),
      path_exists = (\<lambda>p. p = ''/tmp/a.jpg'' \<or> p = ''/tmp/a.txt''),
      read_file = (\<lambda>p. if p = ''/tmp/a.jpg'' then Inr [0xFF, 0xD8, 0xFF]
                         else if p = ''/tmp/a.txt'' then Inr [0x68, 0x69]
                         else Inl (Raised ''IOError'')),
      time = t\<rparr>"

definition fresh :: world where
  "fresh = \<lparr>self = init, wire = []\<rparr>"

definition logged_in :: world where
  "logged_in = \<lparr>self = \<lparr>username = PStr ''alice'', auth_token = PStr ''tok'',
                         qr_path = PStr ''qr''\<rparr>, wire = []\<rparr>"

section \<open>Properties\<close>

subsection \<open>The detectors\<close>

lemma is_video_iff: "is_video d \<longleftrightarrow> (\<exists>x. d = 0x00 # 0x00 # x)"
  by (cases d; cases "tl d") (auto simp: is_video_def)

lemma is_image_iff: "is_image d \<longleftrightarrow> (\<exists>x. d = 0xFF # 0xD8 # x)"
  by (cases d; cases "tl d") (auto simp: is_image_def)

lemma is_zip_py2_iff: "is_zip Python2 d \<longleftrightarrow> (\<exists>x. d = 0x50 # 0x4B # x)"
  by (cases d; cases "tl d") (auto simp: is_zip_def)

lemma is_zip_py3: "\<not> is_zip Python3 d"
  by (simp add: is_zip_def)

lemma get_file_extension_values:
  "get_file_extension (Some MEDIA_VIDEO) = ''mp4''"
  "get_file_extension (Some MEDIA_VIDEO_NOAUDIO) = ''mp4''"
  "get_file_extension (Some MEDIA_IMAGE) = ''jpg''"
  "get_file_extension None = []"
  by (simp_all add: get_file_extension_def MEDIA_VIDEO_def MEDIA_VIDEO_NOAUDIO_def
      MEDIA_IMAGE_def)


text \<open>
  C9. For every suffix \<open>X\<close>, \<open>is_video\<close> holds of the bytes \<open>00 00\<close> followed by
  \<open>X\<close> and \<open>is_image\<close> holds of \<open>FF D8\<close> followed by \<open>X\<close>; both are false on
  the empty buffer and on every buffer of one byte.
\<close>

theorem signature_prefixes:
  "is_video ([0x00, 0x00] @ X) \<and> is_image ([0xFF, 0xD8] @ X)
   \<and> \<not> is_video [] \<and> \<not> is_image []
   \<and> \<not> is_video [b] \<and> \<not> is_image [b]"
  by (simp add: is_video_def is_image_def)

text \<open>
  C8. \<open>get_media_type B\<close> is the video constant when \<open>is_video B\<close>, otherwise the
  image constant when \<open>is_image B\<close>, otherwise nothing (\<^verbatim>\<open>None\<close>, the unknown
  type); the video test comes first. The result is determined by the bytes alone: equal
  buffers have equal types.
\<close>

theorem get_media_type_order:
  "get_media_type B =
     (if is_video B then Some MEDIA_VIDEO
      else if is_image B then Some MEDIA_IMAGE
      else None)
   \<and> (is_video B \<longrightarrow> get_media_type B = Some MEDIA_VIDEO)
   \<and> (\<not> is_video B \<and> is_image B \<longrightarrow> get_media_type B = Some MEDIA_IMAGE)
   \<and> (\<not> is_video B \<and> \<not> is_image B \<longrightarrow> get_media_type B = None)
   \<and> (B = B' \<longrightarrow> get_media_type B = get_media_type B')"
  by (simp add: get_media_type_def)

theorem get_media_type_order_witness:
  "is_video [0x00, 0x00, 0x18] \<and> get_media_type [0x00, 0x00, 0x18] = Some 1
   \<and> \<not> is_video [0xFF, 0xD8, 0xFF] \<and> is_image [0xFF, 0xD8, 0xFF]
   \<and> get_media_type [0xFF, 0xD8, 0xFF] = Some 0
   \<and> \<not> is_video [0x50, 0x4B] \<and> \<not> is_image [0x50, 0x4B]
   \<and> get_media_type [0x50, 0x4B] = None"
  using get_media_type_order [of "[0x00, 0x00, 0x18]" "[0x00, 0x00, 0x18]"]
    get_media_type_order [of "[0xFF, 0xD8, 0xFF]" "[0xFF, 0xD8, 0xFF]"]
    get_media_type_order [of "[0x50, 0x4B]" "[0x50, 0x4B]"]
  by (simp add: is_video_def is_image_def MEDIA_VIDEO_def MEDIA_IMAGE_def)

text \<open>
  C2. The claim is that \<open>is_zip d\<close> holds exactly when \<open>d\<close> has at least two bytes
  and starts with the byte values of \<open>P\<close> and \<open>K\<close>. The source compares the slice
  with the text literal \<^verbatim>\<open>'PK'\<close>, where \<open>is_video\<close> and \<open>is_image\<close> compare with
  byte literals. Under Python 3 the comparison is false on every byte buffer, so the
  detector rejects a buffer that starts with \<open>50 4B\<close>; under Python 2 it accepts it.
\<close>

theorem is_zip_rejects_zip_bytes:
  "\<not> is_zip Python3 (0x50 # 0x4B # X) \<and> is_zip Python2 (0x50 # 0x4B # X)"
  by (simp add: is_zip_def)


subsection \<open>The downloads\<close>


lemma get_blob_wire:
  "wire (snd (get_blob py e w sid)) =
     wire w @ [\<lparr>endpoint = ''ph/blob'', token = auth_token (self w),
                data = Some [(''username'', username (self w)), (''id'', sid)],
                files = None, raise_for_status = False, req_type = ''post''\<rparr>]"
  by (simp add: get_blob_def self_request_def Let_def split: sum.split)

lemma get_blob_result:
  "request e (last (wire (snd (get_blob py e w sid)))) = Inr r \<Longrightarrow>
   decrypt e (content r) = Inr d \<Longrightarrow>
   fst (get_blob py e w sid) = Inr (if any_signature py d then Some d else None)"
  unfolding get_blob_wire by (simp add: get_blob_def self_request_def Let_def)







text \<open>
  Under Python 3 the keyed downloads never return: \<^verbatim>\<open>.decode('base64')\<close> raises
  after the request has been issued.
\<close>

lemma decode_base64_python3: "decode_base64 Python3 e v \<noteq> Inr k"
  by (cases v) simp_all

lemma keyed_downloads_python3:
  "fst (get_story_blob Python3 e w sid key iv) \<noteq> Inr x"
  "fst (get_chat_media Python3 e w ident chatid key iv) \<noteq> Inr x"
  by (auto simp: get_story_blob_def get_chat_media_def self_request_def Let_def decode_base64_python3
      split: sum.split)

text \<open>
  The test of the downloads, on the bytes: under Python 2 it accepts the three two-byte
  signatures, under Python 3 the first two only.
\<close>

lemma any_signature_python2:
  "any_signature Python2 d \<longleftrightarrow>
     (\<exists>x. d = 0xFF # 0xD8 # x) \<or> (\<exists>x. d = 0x00 # 0x00 # x) \<or> (\<exists>x. d = 0x50 # 0x4B # x)"
  by (simp add: any_signature_def is_image_iff is_video_iff is_zip_py2_iff)

lemma any_signature_python3:
  "any_signature Python3 d \<longleftrightarrow> (\<exists>x. d = 0xFF # 0xD8 # x) \<or> (\<exists>x. d = 0x00 # 0x00 # x)"
  by (simp add: any_signature_def is_image_iff is_video_iff is_zip_py3)

text \<open>
  C1. The claim is that each of \<open>get_blob\<close>, \<open>get_story_blob\<close> and
  \<open>get_chat_media\<close> returns the decrypted bytes when they start with the image, video
  or zip signature and a null result otherwise, and in particular that \<open>get_blob\<close>
  returns bytes that start with \<open>P\<close>, \<open>K\<close>. Under Python 3 the zip test of the
  source never succeeds, and \<open>get_blob\<close> returns the null result for decrypted bytes
  that start with \<open>50 4B\<close>.
\<close>

theorem get_blob_python3_drops_zip:
  "request e (last (wire (snd (get_blob Python3 e w sid)))) = Inr r \<Longrightarrow>
   decrypt e (content r) = Inr (0x50 # 0x4B # X) \<Longrightarrow>
   fst (get_blob Python3 e w sid) = Inr None"
  by (simp add: get_blob_result any_signature_def is_image_def is_video_def is_zip_def)

theorem get_blob_python3_drops_zip_witness:
  "request (echo_env [0x50, 0x4B, 0x03, 0x04] 0)
     (last (wire (snd (get_blob Python3 (echo_env [0x50, 0x4B, 0x03, 0x04] 0) logged_in
                         (PStr ''s1''))))) = Inr \<lparr>content = [0x50, 0x4B, 0x03, 0x04]\<rparr>
   \<and> decrypt (echo_env [0x50, 0x4B, 0x03, 0x04] 0) [0x50, 0x4B, 0x03, 0x04]
       = Inr [0x50, 0x4B, 0x03, 0x04]
   \<and> fst (get_blob Python3 (echo_env [0x50, 0x4B, 0x03, 0x04] 0) logged_in (PStr ''s1''))
       = Inr None"
  using get_blob_python3_drops_zip [where e = "echo_env [0x50, 0x4B, 0x03, 0x04] 0"
      and w = logged_in and sid = "PStr ''s1''" and r = "\<lparr>content = [0x50, 0x4B, 0x03, 0x04]\<rparr>"
      and X = "[0x03, 0x04]"]
  by (simp add: echo_env_def)



subsection \<open>Upload and the story posts\<close>




text \<open>
  C3. \<open>send_to_story\<close> raises \<^verbatim>\<open>TypeError\<close> for every argument, with nothing put
  on the wire. \<open>retry_post_story\<close> never returns a response body and puts nothing on
  the wire; it raises \<^verbatim>\<open>TypeError\<close> whenever \<^verbatim>\<open>make_media_id\<close>, which it calls
  first, has returned.
\<close>

theorem story_posts_raise:
  "send_to_story e w media_id t = (Inl TypeError, w)
   \<and> fst (retry_post_story py e w dat caption t) \<noteq> Inr body
   \<and> snd (retry_post_story py e w dat caption t) = w
   \<and> (make_media_id e (username (self w)) = Inr m \<longrightarrow>
        retry_post_story py e w dat caption t = (Inl TypeError, w))"
  by (simp add: send_to_story_def retry_post_story_def split: sum.split)

theorem story_posts_raise_witness:
  "send_to_story (echo_env [] 0) logged_in (PStr ''MEDIA~1'') 5 = (Inl TypeError, logged_in)
   \<and> make_media_id (echo_env [] 0) (username (self logged_in)) = Inr ''MEDIA~1''
   \<and> retry_post_story Python3 (echo_env [] 0) logged_in [0xFF, 0xD8] '''' 10
        = (Inl TypeError, logged_in)"
  using story_posts_raise [where e = "echo_env [] 0" and w = logged_in
      and media_id = "PStr ''MEDIA~1''" and t = 5 and py = Python3 and dat = "[0xFF, 0xD8]"
      and caption = "''''" and body = "[]" and m = "''MEDIA~1''"]
    story_posts_raise [where e = "echo_env [] 0" and w = logged_in
      and media_id = "PStr ''MEDIA~1''" and t = 10 and py = Python3 and dat = "[0xFF, 0xD8]"
      and caption = "''''" and body = "[]" and m = "''MEDIA~1''"]
  by (simp add: echo_env_def logged_in_def)

subsection \<open>Events\<close>

lemma int_round_integer: "int_round py (of_int n) = n"
proof (cases py)
  case Python2
  have "\<lceil>real_of_int n - 1 / 2\<rceil> = n" by linarith
  moreover have "\<lfloor>real_of_int n + 1 / 2\<rfloor> = n" by linarith
  ultimately show ?thesis using Python2 by simp
next
  case Python3
  then show ?thesis by (simp add: Let_def)
qed


text \<open>The two examples of the specification, at clock readings 1000 and 2000.\<close>

lemma mark_viewed_example:
  "mark_viewed_events py (echo_env [] 1000) ''s1'' 3 =
     [PDict [(''eventName'', PStr ''SNAP_VIEW''), (''params'', PDict [(''id'', PStr ''s1'')]),
             (''ts'', PInt 997)],
      PDict [(''eventName'', PStr ''SNAP_EXPIRED''), (''params'', PDict [(''id'', PStr ''s1'')]),
             (''ts'', PInt 1000)]]
   \<and> mark_viewed_data (echo_env [] 1000) ''s1'' 3 =
     PDict [(''s1'', PDict [(''t'', PFloat 1000), (''sv'', PInt 3)])]"
  using int_round_integer [of py 1000]
  by (simp add: mark_viewed_events_def mark_viewed_data_def echo_env_def)

lemma mark_screenshot_example:
  "mark_screenshot_events py (echo_env [] 2000) ''s2'' 2 =
     [PDict [(''eventName'', PStr ''SNAP_SCREENSHOT''),
             (''params'', PDict [(''id'', PStr ''s2'')]), (''ts'', PInt 1998)]]
   \<and> mark_screenshot_data (echo_env [] 2000) ''s2'' 2 =
     PDict [(''s2'', PDict [(''t'', PFloat 2000), (''sv'', PInt 2), (''c'', PInt 3)])]"
  using int_round_integer [of py 2000]
  by (simp add: mark_screenshot_events_def mark_screenshot_data_def echo_env_def)

text \<open>
  C5. \<open>mark_viewed s d\<close> at clock reading \<open>T\<close> hands \<open>send_events\<close> exactly two
  events, \<^verbatim>\<open>SNAP_VIEW\<close> with timestamp \<open>round T - d\<close> and then \<^verbatim>\<open>SNAP_EXPIRED\<close>
  with timestamp \<open>round T\<close>, both with parameters \<open>{id: s}\<close>, and the state entry
  \<open>{s: {t: T, sv: d}}\<close>; the timestamps are \<open>d\<close> apart; one request carrying both
  serialisations goes on the wire.
\<close>

theorem mark_viewed_batch:
  "mark_viewed py e w s d =
     send_events e w
       (PList [PDict [(''eventName'', PStr ''SNAP_VIEW''),
                      (''params'', PDict [(''id'', PStr s)]),
                      (''ts'', PInt (int_round py (time e) - d))],
               PDict [(''eventName'', PStr ''SNAP_EXPIRED''),
                      (''params'', PDict [(''id'', PStr s)]),
                      (''ts'', PInt (int_round py (time e)))]])
       (Some (PDict [(s, PDict [(''t'', PFloat (time e)), (''sv'', PInt d)])]))
   \<and> length (mark_viewed_events py e s d) = 2
   \<and> int_round py (time e) - (int_round py (time e) - d) = d
   \<and> wire (snd (mark_viewed py e w s d)) =
       wire w @
       [\<lparr>endpoint = ''bq/update_snaps'', token = auth_token (self w),
         data = Some [(''username'', username (self w)),
                      (''events'', PStr (json_dumps e (PList (mark_viewed_events py e s d)))),
                      (''json'', PStr (json_dumps e (mark_viewed_data e s d)))],
         files = None, raise_for_status = True, req_type = ''post''\<rparr>]"
  by (simp add: mark_viewed_def mark_viewed_events_def mark_viewed_data_def send_events_def
      self_request_def Let_def split: sum.split)

text \<open>
  C7. \<open>mark_screenshot s d\<close> at clock reading \<open>T\<close> hands \<open>send_events\<close> exactly
  one event, \<^verbatim>\<open>SNAP_SCREENSHOT\<close> with parameters \<open>{id: s}\<close> and timestamp
  \<open>round T - d\<close>, and the state entry \<open>{s: {t: T, sv: d, c: 3}}\<close>; one request
  carrying both serialisations goes on the wire.
\<close>

theorem mark_screenshot_batch:
  "mark_screenshot py e w s d =
     send_events e w
       (PList [PDict [(''eventName'', PStr ''SNAP_SCREENSHOT''),
                      (''params'', PDict [(''id'', PStr s)]),
                      (''ts'', PInt (int_round py (time e) - d))]])
       (Some (PDict [(s, PDict [(''t'', PFloat (time e)), (''sv'', PInt d),
                                (''c'', PInt 3)])]))
   \<and> length (mark_screenshot_events py e s d) = 1
   \<and> wire (snd (mark_screenshot py e w s d)) =
       wire w @
       [\<lparr>endpoint = ''bq/update_snaps'', token = auth_token (self w),
         data = Some [(''username'', username (self w)),
                      (''events'', PStr (json_dumps e (PList (mark_screenshot_events py e s d)))),
                      (''json'', PStr (json_dumps e (mark_screenshot_data e s d)))],
         files = None, raise_for_status = True, req_type = ''post''\<rparr>]"
  by (simp add: mark_screenshot_def mark_screenshot_events_def mark_screenshot_data_def send_events_def
      self_request_def Let_def split: sum.split)

subsection \<open>The session\<close>

text \<open>
  C6. The claim is that logout and an explicit unset both reset username, auth token and
  QR path to empty. In the source \<open>_unset_auth\<close> resets the username and the auth token
  and keeps the QR path, and \<open>logout\<close> puts one request to \<^verbatim>\<open>ph/logout\<close> with the
  current username on the wire, returns whether the body of the answer is empty (or
  raises what the transport raised), and changes no field of the object. The first
  theorem is the amended claim, the second refutes the claim as stated on a logged-in
  object.
\<close>

theorem session_reset_amended:
  "snd (unset_auth w) = w\<lparr>self := (self w)\<lparr>username := PNone, auth_token := PNone\<rparr>\<rparr>
   \<and> username (self (snd (unset_auth w))) = PNone
   \<and> auth_token (self (snd (unset_auth w))) = PNone
   \<and> qr_path (self (snd (unset_auth w))) = qr_path (self w)
   \<and> wire (snd (unset_auth w)) = wire w
   \<and> self (snd (logout e w)) = self w
   \<and> wire (snd (logout e w)) =
       wire w @
       [\<lparr>endpoint = ''ph/logout'', token = auth_token (self w),
         data = Some [(''username'', username (self w))],
         files = None, raise_for_status = True, req_type = ''post''\<rparr>]
   \<and> fst (logout e w) =
       (case request e
               \<lparr>endpoint = ''ph/logout'', token = auth_token (self w),
                data = Some [(''username'', username (self w))],
                files = None, raise_for_status = True, req_type = ''post''\<rparr> of
          Inl x \<Rightarrow> Inl x
        | Inr r \<Rightarrow> Inr (length (content r) = 0))
   \<and> logout e w =
       (case request e
               \<lparr>endpoint = ''ph/logout'', token = auth_token (self w),
                data = Some [(''username'', username (self w))],
                files = None, raise_for_status = True, req_type = ''post''\<rparr> of
          Inl x \<Rightarrow> Inl x
        | Inr r \<Rightarrow> Inr (content r = []),
        w\<lparr>wire := wire w @
           [\<lparr>endpoint = ''ph/logout'', token = auth_token (self w),
             data = Some [(''username'', username (self w))],
             files = None, raise_for_status = True, req_type = ''post''\<rparr>]\<rparr>)"
  by (simp add: unset_auth_def logout_def self_request_def Let_def split: sum.split)

theorem session_reset_counterexample:
  "self (snd (logout (echo_env [] 0) logged_in)) \<noteq> init
   \<and> self (snd (unset_auth logged_in)) \<noteq> init"
  by (simp add: unset_auth_def logout_def self_request_def Let_def logged_in_def init_def echo_env_def)

end
